theory Spec2Isabelle
  imports Main "HOL-Library.Word"
begin

section \<open>The host side of the boundary\<close>

text \<open>
  The functions of \<^verbatim>\<open>_khmermodule.cc\<close> are entered from the Python interpreter and
  hand back either an object or \<^verbatim>\<open>NULL\<close>. With \<^verbatim>\<open>NULL\<close> the interpreter looks
  at its error indicator: a set indicator is an exception raised in the host, and a clear
  one, for a \<^verbatim>\<open>tp_iternext\<close> slot, is the ordinary end of the iteration.
  An error is the pair of the exception class and the message given to
  \<^verbatim>\<open>PyErr_SetString\<close>.
\<close>

datatype py_exc =
    PyExc_ValueError
  | PyExc_IOError
  | PyExc_TypeError
  | PyExc_KeyboardInterrupt

type_synonym py_error = "py_exc \<times> string"

text \<open>
  A call that does not come back at all (a null pointer or a pointer to no object of
  the expected class is dereferenced, or a C++ exception leaves the function with no
  handler) is \<open>NoReturn\<close>.
\<close>

datatype abort_cause = NullDereference | WildPointer | UncaughtException

datatype 'a py_return =
    PyObj 'a
  | PyNULL "py_error option"
  | NoReturn abort_cause

section \<open>Reads and the native parser\<close>

text \<open>The four strings of \<^verbatim>\<open>read_parsers::Read\<close> that the accessors of
  \<^verbatim>\<open>khmer_Read_Object\<close> expose.\<close>

record Read =
  name :: string
  sequence :: string
  accuracy :: string
  annotations :: string

record ReadPair =
  first :: Read
  second :: Read

text \<open>
  Modelled from the spec: the exception classes of the native parser, which are declared
  in \<^verbatim>\<open>read_parsers.hh\<close> and are not part of the sources at hand. These are the
  four that the two \<^verbatim>\<open>iternext\<close> functions name in their handlers.
\<close>

datatype parser_exception =
    NoMoreReadsAvailable
  | StreamReadError string
  | UnknownPairReadingMode
  | InvalidReadPair

text \<open>
  \<^verbatim>\<open>IParser\<close> is an abstract class: \<^verbatim>\<open>is_complete\<close>,
  \<^verbatim>\<open>imprint_next_read\<close> and \<^verbatim>\<open>imprint_next_read_pair\<close> are reached through
  the parser pointer. The wrappers below take these methods as arguments, acting on a
  parser state of any type \<open>'p\<close>; a method returns its result or the exception it
  throws, together with the parser state it leaves behind.
\<close>

subsection \<open>\<^verbatim>\<open>_ReadParser_iternext\<close>\<close>

text \<open>
  In the handler for \<^verbatim>\<open>StreamReadError\<close> the function keeps the pointer that
  \<^verbatim>\<open>e.what()\<close> returns in \<^verbatim>\<open>exc\<close>, and gives it to
  \<^verbatim>\<open>PyErr_SetString\<close> only after the handler has ended and the exception object
  is destroyed. The text that is read then is not the parser's message any more; what
  is read in place of a message is the argument \<open>stale_text\<close>, of which nothing is
  assumed. The class of the error, \<^verbatim>\<open>IOError\<close>, does not depend on it.
\<close>

definition ReadParser_iternext ::
  "(string \<Rightarrow> string) \<Rightarrow> ('p \<Rightarrow> bool) \<Rightarrow> ('p \<Rightarrow> (parser_exception + Read) \<times> 'p) \<Rightarrow> 'p \<Rightarrow>
     Read py_return \<times> 'p"
where
  "ReadParser_iternext stale_text is_complete imprint_next_read parser =
     (if is_complete parser then (PyNULL None, parser)
      else
        (case imprint_next_read parser of
           (Inr the_read, parser') \<Rightarrow> (PyObj the_read, parser')
         | (Inl NoMoreReadsAvailable, parser') \<Rightarrow> (PyNULL None, parser')
         | (Inl (StreamReadError exc), parser') \<Rightarrow>
             (PyNULL (Some (PyExc_IOError, stale_text exc)), parser')
         | (Inl UnknownPairReadingMode, parser') \<Rightarrow> (NoReturn UncaughtException, parser')
         | (Inl InvalidReadPair, parser') \<Rightarrow> (NoReturn UncaughtException, parser')))"

text \<open>The host pulling \<open>n\<close> times in a row, whatever comes back.\<close>

fun pulls ::
  "(string \<Rightarrow> string) \<Rightarrow> ('p \<Rightarrow> bool) \<Rightarrow> ('p \<Rightarrow> (parser_exception + Read) \<times> 'p) \<Rightarrow> nat \<Rightarrow>
     'p \<Rightarrow> Read py_return list \<times> 'p"
where
  "pulls st ic nx 0 parser = ([], parser)"
| "pulls st ic nx (Suc n) parser =
     (case ReadParser_iternext st ic nx parser of
        (r, parser') \<Rightarrow>
          (case pulls st ic nx n parser' of (rs, parser'') \<Rightarrow> (r # rs, parser'')))"

subsection \<open>A stream of records\<close>

text \<open>
  Modelled from the spec: the native stream parser behind \<^verbatim>\<open>IParser\<close>
  (\<^verbatim>\<open>read_parsers.cc\<close>) is not part of the sources. Following the contract
  \<open>parser.is_complete(handle) -> bool\<close>, \<open>parser.next(handle) -> record | ends | fails\<close>,
  the parser state is the part of the input still to be read, item by item: a
  well-formed record, or a piece of input that does not parse.
\<close>

datatype stream_item = WellFormed Read | Malformed string

definition stream_is_complete :: "stream_item list \<Rightarrow> bool" where
  "stream_is_complete parser = (parser = [])"

fun stream_imprint_next_read ::
  "stream_item list \<Rightarrow> (parser_exception + Read) \<times> stream_item list"
where
  "stream_imprint_next_read [] = (Inl NoMoreReadsAvailable, [])"
| "stream_imprint_next_read (WellFormed r # rest) = (Inr r, rest)"
| "stream_imprint_next_read (Malformed what # rest) = (Inl (StreamReadError what), rest)"

subsection \<open>\<^verbatim>\<open>_ReadPairIterator_iternext\<close>\<close>

text \<open>The first member of every Python object struct.\<close>

record PyObject_HEAD =
  ob_refcnt :: int

text \<open>
  \<^verbatim>\<open>khmer_ReadPairIterator_Object\<close>: the address of the parent parser object and
  the pair mode, an \<^verbatim>\<open>int\<close>.
\<close>

record khmer_ReadPairIterator_Object = PyObject_HEAD +
  parent :: nat
  pair_mode :: "32 word"

text \<open>
  Modelled from the spec: the enumerators \<^verbatim>\<open>IParser::PAIR_MODE_*\<close> are declared in
  \<^verbatim>\<open>read_parsers.hh\<close>, which is not part of the sources. The spec lists the
  policies as \<open>ALLOW_UNPAIRED\<close>, \<open>IGNORE_UNPAIRED\<close>, \<open>ERROR_ON_UNPAIRED\<close>; they are
  numbered here as a C enumeration in that order.
\<close>

definition PAIR_MODE_ALLOW_UNPAIRED :: "32 word" where
  "PAIR_MODE_ALLOW_UNPAIRED = 0"

definition PAIR_MODE_IGNORE_UNPAIRED :: "32 word" where
  "PAIR_MODE_IGNORE_UNPAIRED = 1"

definition PAIR_MODE_ERROR_ON_UNPAIRED :: "32 word" where
  "PAIR_MODE_ERROR_ON_UNPAIRED = 2"

text \<open>The three errors that \<^verbatim>\<open>_ReadPairIterator_iternext\<close> sets.\<close>

definition unknown_pair_reading_mode_error :: py_error where
  "unknown_pair_reading_mode_error = (PyExc_ValueError, ''Unknown pair reading mode supplied.'')"

definition invalid_read_pair_error :: py_error where
  "invalid_read_pair_error = (PyExc_IOError, ''Invalid read pair detected.'')"

definition stream_read_error :: py_error where
  "stream_read_error = (PyExc_IOError, ''Input file error.'')"

text \<open>
  \<open>parser\<close> is the native parser that \<^verbatim>\<open>myself->parent->parser\<close> points to. The
  pair mode is narrowed from \<^verbatim>\<open>int\<close> to \<^verbatim>\<open>uint8_t\<close> before the call. The
  four flags are tested in the order of the source; the iterator object is only read.
\<close>

definition ReadPairIterator_iternext ::
  "('p \<Rightarrow> bool) \<Rightarrow> ('p \<Rightarrow> 8 word \<Rightarrow> (parser_exception + ReadPair) \<times> 'p) \<Rightarrow>
     khmer_ReadPairIterator_Object \<Rightarrow> 'p \<Rightarrow> (Read \<times> Read) py_return \<times> 'p"
where
  "ReadPairIterator_iternext is_complete imprint_next_read_pair myself parser =
     (let pair_mode8 = (ucast (pair_mode myself) :: 8 word) in
      if is_complete parser then (PyNULL None, parser)
      else
        (case imprint_next_read_pair parser pair_mode8 of
           (Inl NoMoreReadsAvailable, parser') \<Rightarrow> (PyNULL None, parser')
         | (Inl UnknownPairReadingMode, parser') \<Rightarrow>
             (PyNULL (Some unknown_pair_reading_mode_error), parser')
         | (Inl InvalidReadPair, parser') \<Rightarrow> (PyNULL (Some invalid_read_pair_error), parser')
         | (Inl (StreamReadError exc), parser') \<Rightarrow> (PyNULL (Some stream_read_error), parser')
         | (Inr the_read_pair, parser') \<Rightarrow>
             (PyObj (first the_read_pair, second the_read_pair), parser')))"

text \<open>The host pulling \<open>n\<close> times from one pair iterator.\<close>

fun pair_pulls ::
  "('p \<Rightarrow> bool) \<Rightarrow> ('p \<Rightarrow> 8 word \<Rightarrow> (parser_exception + ReadPair) \<times> 'p) \<Rightarrow> nat \<Rightarrow>
     khmer_ReadPairIterator_Object \<Rightarrow> 'p \<Rightarrow> (Read \<times> Read) py_return list \<times> 'p"
where
  "pair_pulls ic np 0 myself parser = ([], parser)"
| "pair_pulls ic np (Suc n) myself parser =
     (case ReadPairIterator_iternext ic np myself parser of
        (r, parser') \<Rightarrow>
          (case pair_pulls ic np n myself parser' of (rs, parser'') \<Rightarrow> (r # rs, parser'')))"

text \<open>
  To observe which pair mode reaches the native parser, any parser can be run with a
  log beside its state: every call of \<^verbatim>\<open>imprint_next_read_pair\<close> appends the mode
  it was given.
\<close>

definition logged_is_complete :: "('p \<Rightarrow> bool) \<Rightarrow> 'p \<times> 8 word list \<Rightarrow> bool" where
  "logged_is_complete ic = (\<lambda>(p, modes). ic p)"

definition logged_imprint_next_read_pair ::
  "('p \<Rightarrow> 8 word \<Rightarrow> (parser_exception + ReadPair) \<times> 'p) \<Rightarrow>
     'p \<times> 8 word list \<Rightarrow> 8 word \<Rightarrow> (parser_exception + ReadPair) \<times> ('p \<times> 8 word list)"
where
  "logged_imprint_next_read_pair np =
     (\<lambda>(p, modes) m. case np p m of (r, p') \<Rightarrow> (r, (p', modes @ [m])))"

text \<open>
  The number of native calls that \<open>n\<close> pulls must make, counted on the parser alone: a
  pull on a parser that is complete makes none and leaves the parser as it is, a pull
  on any other parser makes one call, with the pair mode \<open>m\<close>, and goes on from the
  state that call leaves.
\<close>

fun parser_calls ::
  "('p \<Rightarrow> bool) \<Rightarrow> ('p \<Rightarrow> 8 word \<Rightarrow> (parser_exception + ReadPair) \<times> 'p) \<Rightarrow> 8 word \<Rightarrow>
     nat \<Rightarrow> 'p \<Rightarrow> nat"
where
  "parser_calls ic np m 0 p = 0"
| "parser_calls ic np m (Suc n) p =
     (if ic p then parser_calls ic np m n p
      else Suc (parser_calls ic np m n (snd (np p m))))"


text \<open>
  Native parsers for the examples, over a parser state with nothing in it: one that is
  never complete, one that throws a given exception at every call, and one that finds
  the same pair at every call.
\<close>

definition never_complete :: "unit \<Rightarrow> bool" where
  "never_complete p = False"


definition always_finds ::
  "ReadPair \<Rightarrow> unit \<Rightarrow> 8 word \<Rightarrow> (parser_exception + ReadPair) \<times> unit"
where
  "always_finds pr p m = (Inr pr, p)"

section \<open>The reporting callback\<close>

text \<open>
  The Python objects that reach the functions modelled here: \<^verbatim>\<open>None\<close>, something
  that is called (told apart by a number, and carrying the error it raises when called,
  if it raises one), a capsule with its name and its pointer into native memory, and the
  objects that a list of table sizes may hold: a \<^verbatim>\<open>long\<close>, an \<^verbatim>\<open>int\<close> (a
  type of its own under Python 2 only, holding a C \<^verbatim>\<open>long\<close>), a \<^verbatim>\<open>float\<close>
  (carried as the \<^verbatim>\<open>HashIntoType\<close> that the C conversion of its double gives) and a
  byte string. Calling an object without a call slot fails.
\<close>

datatype pyobject =
    Py_None
  | PyCallable nat "py_error option"
  | PyCapsule string nat
  | PyLong int
  | PyInt int
  | PyFloat "64 word"
  | PyBytes string

text \<open>
  What the functions below read and write of the interpreter: whether a signal whose
  handler raises (Ctrl-C) has arrived and not been handled yet, the error indicator,
  the module's static \<^verbatim>\<open>_callback_obj\<close> (\<open>None\<close> for \<^verbatim>\<open>NULL\<close>), and, to
  observe them, the calls made through \<^verbatim>\<open>PyObject_Call\<close> in the order made.
\<close>

record interp =
  signal_pending :: bool
  error_indicator :: "py_error option"
  callback_obj_default :: "pyobject option"
  calls :: "(pyobject \<times> string \<times> 64 word \<times> 64 word) list"

definition PyErr_CheckSignals :: "interp \<Rightarrow> int \<times> interp" where
  "PyErr_CheckSignals s =
     (if signal_pending s
      then (-1, s\<lparr>signal_pending := False,
                  error_indicator := Some (PyExc_KeyboardInterrupt, [])\<rparr>)
      else (0, s))"

definition PyObject_Call ::
  "interp \<Rightarrow> pyobject \<Rightarrow> string \<times> 64 word \<times> 64 word \<Rightarrow> interp"
where
  "PyObject_Call s obj args =
     (let s' = s\<lparr>calls := calls s @ [(obj, args)]\<rparr> in
      case obj of
        PyCallable i None \<Rightarrow> s'
      | PyCallable i (Some e) \<Rightarrow> s'\<lparr>error_indicator := Some e\<rparr>
      | _ \<Rightarrow> s'\<lparr>error_indicator := Some (PyExc_TypeError, ''object is not callable'')\<rparr>)"

text \<open>
  \<^verbatim>\<open>set_reporting_callback\<close>, after its argument is parsed: the static is replaced.
\<close>

definition set_reporting_callback :: "interp \<Rightarrow> pyobject \<Rightarrow> interp" where
  "set_reporting_callback s o' = s\<lparr>callback_obj_default := Some o'\<rparr>"

text \<open>
  \<^verbatim>\<open>_report_fn\<close>. \<open>data\<close> is \<open>None\<close> for a \<^verbatim>\<open>NULL\<close> pointer. The function
  either returns (\<open>Inr\<close>) or throws \<^verbatim>\<open>_khmer_signal\<close> with a message (\<open>Inl\<close>);
  both ways the interpreter state it leaves is given. Building the argument tuple is
  taken to succeed.
\<close>

definition report_fn ::
  "interp \<Rightarrow> string \<Rightarrow> pyobject option \<Rightarrow> 64 word \<Rightarrow> 64 word \<Rightarrow> (string \<times> interp) + interp"
where
  "report_fn s info data n_reads other =
     (case PyErr_CheckSignals s of
        (rc, s1) \<Rightarrow>
          if rc \<noteq> 0 then Inl (''PyErr_CheckSignals received a signal'', s1)
          else
            let data' = (if data = None \<and> callback_obj_default s1 \<noteq> None
                         then callback_obj_default s1 else data);
                s2 = (case data' of
                        None \<Rightarrow> s1
                      | Some obj \<Rightarrow>
                          if obj \<noteq> Py_None then PyObject_Call s1 obj (info, n_reads, other)
                          else s1)
            in if error_indicator s2 \<noteq> None then Inl (''PyErr_Occurred is set'', s2)
               else Inr s2)"

text \<open>The interpreter state after \<^verbatim>\<open>_report_fn\<close>, returned or thrown.\<close>

definition state_after :: "(string \<times> interp) + interp \<Rightarrow> interp" where
  "state_after r = (case r of Inl (msg, s') \<Rightarrow> s' | Inr s' \<Rightarrow> s')"

text \<open>
  The rule of the spec, in its words: an observer passed to the call overrides the
  process-wide default for that call; the default is used when the call passes none;
  the explicit sentinel \<^verbatim>\<open>None\<close> suppresses both.
\<close>

definition spec_observer :: "pyobject option \<Rightarrow> pyobject option \<Rightarrow> pyobject option" where
  "spec_observer data dflt =
     (case data of
        Some Py_None \<Rightarrow> None
      | Some obj \<Rightarrow> Some obj
      | None \<Rightarrow> (case dflt of Some Py_None \<Rightarrow> None | Some obj \<Rightarrow> Some obj | None \<Rightarrow> None))"

section \<open>Consuming a file\<close>

text \<open>The two C++ exceptions that the consume wrappers catch.\<close>

datatype cxx_exception = khmer_signal string | khmer_file_exception string

text \<open>
  Modelled from the spec: \<^verbatim>\<open>CountingHash::consume_fasta\<close> and
  \<^verbatim>\<open>Hashbits::consume_fasta_and_tag\<close> belong to the native engine and are not part
  of the sources. Toward the wrapper an engine run is a sequence of events: it adds to
  the two counters it was given by reference, it calls the callback it was given with
  a tag and the counters, or it fails with a file exception. The run is a parameter of
  the wrapper; a thrown exception ends it, the counters staying as they are.
\<close>

datatype engine_event =
    Consumed "32 word" "64 word"
  | Report string
  | File_error string

fun engine_run ::
  "engine_event list \<Rightarrow> pyobject option \<Rightarrow> 32 word \<Rightarrow> 64 word \<Rightarrow> interp \<Rightarrow>
     (cxx_exception \<times> 32 word \<times> 64 word \<times> interp) + (32 word \<times> 64 word \<times> interp)"
where
  "engine_run [] data total_reads n_consumed s = Inr (total_reads, n_consumed, s)"
| "engine_run (Consumed r k # es) data total_reads n_consumed s =
     engine_run es data (total_reads + r) (n_consumed + k) s"
| "engine_run (Report info # es) data total_reads n_consumed s =
     (case report_fn s info data (ucast total_reads) n_consumed of
        Inl (msg, s') \<Rightarrow> Inl (khmer_signal msg, total_reads, n_consumed, s')
      | Inr s' \<Rightarrow> engine_run es data total_reads n_consumed s')"
| "engine_run (File_error what # es) data total_reads n_consumed s =
     Inl (khmer_file_exception what, total_reads, n_consumed, s)"

definition PyErr_SetString :: "interp \<Rightarrow> py_exc \<Rightarrow> string \<Rightarrow> interp" where
  "PyErr_SetString s exc msg = s\<lparr>error_indicator := Some (exc, msg)\<rparr>"

text \<open>
  \<^verbatim>\<open>hash_consume_fasta\<close>, after its arguments are parsed. \<open>callback_obj\<close> is
  \<open>None\<close> when the optional argument was not given. A \<^verbatim>\<open>NULL\<close> return is
  shown with the error indicator the interpreter finds.
\<close>

definition hash_consume_fasta ::
  "engine_event list \<Rightarrow> interp \<Rightarrow> pyobject option \<Rightarrow> (32 word \<times> 64 word) py_return \<times> interp"
where
  "hash_consume_fasta consume_fasta s callback_obj =
     (case engine_run consume_fasta callback_obj 0 0 s of
        Inl (khmer_signal message, total_reads, n_consumed, s') \<Rightarrow>
          (let s'' = PyErr_SetString s' PyExc_IOError message
           in (PyNULL (error_indicator s''), s''))
      | Inl (khmer_file_exception what, total_reads, n_consumed, s') \<Rightarrow>
          (let s'' = PyErr_SetString s' PyExc_IOError what
           in (PyNULL (error_indicator s''), s''))
      | Inr (total_reads, n_consumed, s') \<Rightarrow> (PyObj (total_reads, n_consumed), s'))"

text \<open>
  \<^verbatim>\<open>hashbits_consume_fasta_and_tag\<close> has the same handlers; its two counters start
  uninitialised, so their first values are arguments here.
\<close>

definition hashbits_consume_fasta_and_tag ::
  "engine_event list \<Rightarrow> 32 word \<Rightarrow> 64 word \<Rightarrow> interp \<Rightarrow> pyobject option \<Rightarrow>
     (32 word \<times> 64 word) py_return \<times> interp"
where
  "hashbits_consume_fasta_and_tag consume_fasta_and_tag total_reads0 n_consumed0 s callback_obj =
     (case engine_run consume_fasta_and_tag callback_obj total_reads0 n_consumed0 s of
        Inl (khmer_signal message, total_reads, n_consumed, s') \<Rightarrow>
          (let s'' = PyErr_SetString s' PyExc_IOError message
           in (PyNULL (error_indicator s''), s''))
      | Inl (khmer_file_exception what, total_reads, n_consumed, s') \<Rightarrow>
          (let s'' = PyErr_SetString s' PyExc_IOError what
           in (PyNULL (error_indicator s''), s''))
      | Inr (total_reads, n_consumed, s') \<Rightarrow> (PyObj (total_reads, n_consumed), s'))"

section \<open>Native memory and opaque handles\<close>

text \<open>
  Modelled from the spec: the classes of the native engine (\<^verbatim>\<open>subset.hh\<close>,
  \<^verbatim>\<open>hashbits.hh\<close>, \<^verbatim>\<open>labelhash.hh\<close>) are not part of the sources. Of a
  partition sub-engine only the partition-id assignment of its tagged keys is kept; of
  the partial partition info, its seed key and the keys found so far, the two members
  the wrapper reads; a presence engine has its k-mer size, its table sizes, its tags
  and the partition engine it owns; the labeling engine is a C++ subclass of the
  presence engine and adds a label index.
\<close>

record SubsetPartition =
  partition_map :: "(64 word \<times> 32 word) list"

record pre_partition_info =
  kmer :: "64 word"
  tagged_kmers :: "64 word list"

record Hashbits =
  ksize :: "8 word"
  tablesizes :: "64 word list"
  all_tags :: "64 word list"
  partition' :: SubsetPartition

record LabelHash = Hashbits +
  label_ptrs :: "(64 word \<times> 64 word) list"

text \<open>
  Native memory holds objects allocated with \<^verbatim>\<open>new\<close>; an address is an index, and
  a deleted object leaves \<open>None\<close> behind. A pointer is an address or \<^verbatim>\<open>NULL\<close>
  (\<open>None\<close>).
\<close>

datatype native =
    N_pre_partition_info pre_partition_info
  | N_SubsetPartition SubsetPartition
  | N_Hashbits Hashbits
  | N_LabelHash LabelHash

type_synonym native_heap = "native option list"

definition cell :: "'a option list \<Rightarrow> nat \<Rightarrow> 'a option" where
  "cell xs a = (if a < length xs then xs ! a else None)"

definition new :: "native_heap \<Rightarrow> native \<Rightarrow> nat \<times> native_heap" where
  "new heap obj = (length heap, heap @ [Some obj])"

definition delete :: "native_heap \<Rightarrow> nat \<Rightarrow> native_heap" where
  "delete heap a = heap[a := None]"

text \<open>
  Reading through a \<^verbatim>\<open>Hashbits *\<close>: at a labeling engine it sees the base-class
  part of that object.
\<close>

definition deref_Hashbits :: "native_heap \<Rightarrow> nat option \<Rightarrow> Hashbits option" where
  "deref_Hashbits heap p =
     (case p of
        None \<Rightarrow> None
      | Some a \<Rightarrow>
          (case cell heap a of
             Some (N_Hashbits hb) \<Rightarrow> Some hb
           | Some (N_LabelHash lh) \<Rightarrow> Some (Hashbits.truncate lh)
           | _ \<Rightarrow> None))"

definition deref_LabelHash :: "native_heap \<Rightarrow> nat option \<Rightarrow> LabelHash option" where
  "deref_LabelHash heap p =
     (case p of
        None \<Rightarrow> None
      | Some a \<Rightarrow> (case cell heap a of Some (N_LabelHash lh) \<Rightarrow> Some lh | _ \<Rightarrow> None))"

subsection \<open>Capsules\<close>

text \<open>
  \<^verbatim>\<open>PyCapsule_IsValid\<close> and \<^verbatim>\<open>PyCapsule_GetPointer\<close> of the C API. The second
  returns \<^verbatim>\<open>NULL\<close> with \<^verbatim>\<open>ValueError\<close> set (\<open>Inl\<close>) when the object is not a
  capsule or its name is not the one asked for. (Under Python 2.6 the header
  \<^verbatim>\<open>capsulethunk.h\<close> replaces capsules by \<^verbatim>\<open>PyCObject\<close>, which has no names;
  the functions here are those of the capsule API proper.)
\<close>

definition PyCapsule_IsValid :: "pyobject \<Rightarrow> string \<Rightarrow> bool" where
  "PyCapsule_IsValid obj nm = (case obj of PyCapsule n p \<Rightarrow> n = nm | _ \<Rightarrow> False)"

definition PyCapsule_GetPointer :: "pyobject \<Rightarrow> string \<Rightarrow> py_error + nat" where
  "PyCapsule_GetPointer obj nm =
     (case obj of
        PyCapsule n p \<Rightarrow>
          if n = nm then Inr p
          else Inl (PyExc_ValueError, ''PyCapsule_GetPointer called with incorrect name'')
      | _ \<Rightarrow> Inl (PyExc_ValueError, ''PyCapsule_GetPointer called with invalid PyCapsule object''))"

text \<open>The C pointer a wrapper holds after the call: \<^verbatim>\<open>NULL\<close> in the error case.\<close>

definition pointer_of :: "py_error + nat \<Rightarrow> nat option" where
  "pointer_of r = (case r of Inl e \<Rightarrow> None | Inr a \<Rightarrow> Some a)"

subsection \<open>Operations that take a handle\<close>

text \<open>\<^verbatim>\<open>khmer_KHashbitsObject\<close>: the object head and the pointer to the engine.\<close>

record khmer_KHashbitsObject = PyObject_HEAD +
  hashbits :: "nat option"

text \<open>
  \<^verbatim>\<open>hashbits_assign_partition_id\<close>. The engine's
  \<^verbatim>\<open>SubsetPartition::assign_partition_id\<close> is an argument: from the partition
  engine, the seed key and the keys found it gives the partition id and the engine it
  leaves. The engine lives inside the object that \<^verbatim>\<open>me->hashbits\<close> points to.
\<close>

definition hashbits_assign_partition_id ::
  "(SubsetPartition \<Rightarrow> 64 word \<Rightarrow> 64 word list \<Rightarrow> 32 word \<times> SubsetPartition) \<Rightarrow>
     native_heap \<Rightarrow> khmer_KHashbitsObject \<Rightarrow> pyobject \<Rightarrow> 32 word py_return \<times> native_heap"
where
  "hashbits_assign_partition_id assign_partition_id heap me ppi_obj =
     (if \<not> PyCapsule_IsValid ppi_obj ''khmer.pre_partition_info''
      then (PyNULL (Some (PyExc_ValueError, ''invalid pre_partition_info'')), heap)
      else
        (case pointer_of (PyCapsule_GetPointer ppi_obj ''khmer.pre_partition_info'') of
           None \<Rightarrow> (NoReturn NullDereference, heap)
         | Some a \<Rightarrow>
             (case (cell heap a, hashbits me) of
                (Some (N_pre_partition_info ppi), Some b) \<Rightarrow>
                  (case cell heap b of
                     Some (N_Hashbits hb) \<Rightarrow>
                       (case assign_partition_id (partition' hb) (kmer ppi) (tagged_kmers ppi) of
                          (p, part) \<Rightarrow>
                            (PyObj p, heap[b := Some (N_Hashbits (hb\<lparr>partition' := part\<rparr>))]))
                   | Some (N_LabelHash lh) \<Rightarrow>
                       (case assign_partition_id (partition' lh) (kmer ppi) (tagged_kmers ppi) of
                          (p, part) \<Rightarrow>
                            (PyObj p, heap[b := Some (N_LabelHash (lh\<lparr>partition' := part\<rparr>))]))
                   | _ \<Rightarrow> (NoReturn WildPointer, heap))
              | (_, None) \<Rightarrow> (NoReturn NullDereference, heap)
              | _ \<Rightarrow> (NoReturn WildPointer, heap))))"

text \<open>
  \<^verbatim>\<open>hashbits_merge_subset\<close>, with the engine's \<^verbatim>\<open>SubsetPartition::merge\<close> as
  an argument.
\<close>

definition hashbits_merge_subset ::
  "(SubsetPartition \<Rightarrow> SubsetPartition \<Rightarrow> SubsetPartition) \<Rightarrow>
     native_heap \<Rightarrow> khmer_KHashbitsObject \<Rightarrow> pyobject \<Rightarrow> unit py_return \<times> native_heap"
where
  "hashbits_merge_subset merge heap me subset_obj =
     (if \<not> PyCapsule_IsValid subset_obj ''khmer.SubsetPartition''
      then (PyNULL (Some (PyExc_ValueError, ''invalid subset'')), heap)
      else
        (case pointer_of (PyCapsule_GetPointer subset_obj ''khmer.SubsetPartition'') of
           None \<Rightarrow> (NoReturn NullDereference, heap)
         | Some a \<Rightarrow>
             (case (cell heap a, hashbits me) of
                (Some (N_SubsetPartition subset_p), Some b) \<Rightarrow>
                  (case cell heap b of
                     Some (N_Hashbits hb) \<Rightarrow>
                       (PyObj (),
                        heap[b := Some (N_Hashbits (hb\<lparr>partition' := merge (partition' hb) subset_p\<rparr>))])
                   | Some (N_LabelHash lh) \<Rightarrow>
                       (PyObj (),
                        heap[b := Some (N_LabelHash (lh\<lparr>partition' := merge (partition' lh) subset_p\<rparr>))])
                   | _ \<Rightarrow> (NoReturn WildPointer, heap))
              | (_, None) \<Rightarrow> (NoReturn NullDereference, heap)
              | _ \<Rightarrow> (NoReturn WildPointer, heap))))"

text \<open>
  \<^verbatim>\<open>hashbits_subset_count_partitions\<close>, with the engine's
  \<^verbatim>\<open>SubsetPartition::count_partitions\<close> as an argument. The pointer that
  \<^verbatim>\<open>PyCapsule_GetPointer\<close> returns is used as it comes.
\<close>

definition hashbits_subset_count_partitions ::
  "(SubsetPartition \<Rightarrow> nat \<times> nat) \<Rightarrow> native_heap \<Rightarrow> pyobject \<Rightarrow> (nat \<times> nat) py_return"
where
  "hashbits_subset_count_partitions count_partitions heap subset_obj =
     (case pointer_of (PyCapsule_GetPointer subset_obj ''khmer.SubsetPartition'') of
        None \<Rightarrow> NoReturn NullDereference
      | Some a \<Rightarrow>
          (case cell heap a of
             Some (N_SubsetPartition subset_p) \<Rightarrow> PyObj (count_partitions subset_p)
           | _ \<Rightarrow> NoReturn WildPointer))"

subsection \<open>Saving and loading a partition map\<close>

text \<open>
  Modelled from the spec: \<^verbatim>\<open>SubsetPartition::save_partitionmap\<close> and
  \<^verbatim>\<open>load_partitionmap\<close> are not part of the sources, and the spec leaves the
  persisted format opaque, produced and consumed only by path. Storage maps a path to a
  file; a partition-map file holds what a sub-engine saved; loading any other file, or a
  path with no file, is the \<open>FileError\<close> of the spec.
\<close>

datatype stored_file = Partitionmap_file "(64 word \<times> 32 word) list" | Other_file string

type_synonym storage = "string \<Rightarrow> stored_file option"

definition save_partitionmap :: "storage \<Rightarrow> SubsetPartition \<Rightarrow> string \<Rightarrow> storage" where
  "save_partitionmap fs subset_p filename =
     fs(filename \<mapsto> Partitionmap_file (partition_map subset_p))"

definition load_partitionmap ::
  "storage \<Rightarrow> SubsetPartition \<Rightarrow> string \<Rightarrow> cxx_exception + SubsetPartition"
where
  "load_partitionmap fs subset_p filename =
     (case fs filename of
        Some (Partitionmap_file pm) \<Rightarrow> Inr (subset_p\<lparr>partition_map := pm\<rparr>)
      | _ \<Rightarrow> Inl (khmer_file_exception ''Unable to open file for reading''))"

text \<open>The partition id a sub-engine assigns to a key, if the key is tagged.\<close>

definition get_partition_id :: "SubsetPartition \<Rightarrow> 64 word \<Rightarrow> 32 word option" where
  "get_partition_id subset_p k = map_of (partition_map subset_p) k"

text \<open>\<^verbatim>\<open>hashbits_save_subset_partitionmap\<close>.\<close>

definition hashbits_save_subset_partitionmap ::
  "storage \<Rightarrow> native_heap \<Rightarrow> pyobject \<Rightarrow> string \<Rightarrow> unit py_return \<times> storage"
where
  "hashbits_save_subset_partitionmap fs heap subset_obj filename =
     (case pointer_of (PyCapsule_GetPointer subset_obj ''khmer.SubsetPartition'') of
        None \<Rightarrow> (NoReturn NullDereference, fs)
      | Some a \<Rightarrow>
          (case cell heap a of
             Some (N_SubsetPartition subset_p) \<Rightarrow>
               (PyObj (), save_partitionmap fs subset_p filename)
           | _ \<Rightarrow> (NoReturn WildPointer, fs)))"

text \<open>
  \<^verbatim>\<open>hashbits_load_subset_partitionmap\<close>: a new sub-engine is allocated, loaded, and
  either deleted again with \<^verbatim>\<open>IOError\<close> set or wrapped in a capsule.
\<close>

definition hashbits_load_subset_partitionmap ::
  "storage \<Rightarrow> native_heap \<Rightarrow> string \<Rightarrow> pyobject py_return \<times> native_heap"
where
  "hashbits_load_subset_partitionmap fs heap filename =
     (let fresh = \<lparr>partition_map = []\<rparr>;
          (subset_p, heap1) = new heap (N_SubsetPartition fresh)
      in case load_partitionmap fs fresh filename of
           Inl (khmer_file_exception what) \<Rightarrow>
             (PyNULL (Some (PyExc_IOError, what)), delete heap1 subset_p)
         | Inl (khmer_signal message) \<Rightarrow> (NoReturn UncaughtException, heap1)
         | Inr loaded \<Rightarrow>
             (PyObj (PyCapsule ''khmer.SubsetPartition'' subset_p),
              heap1[subset_p := Some (N_SubsetPartition loaded)]))"

section \<open>The labeling engine's wrapper\<close>

text \<open>
  \<^verbatim>\<open>khmer_KLabelHashObject\<close>: a \<^verbatim>\<open>khmer_KHashbitsObject\<close> as first member, then
  the pointer to the labeling engine.
\<close>

record khmer_KLabelHashObject =
  khashbits :: khmer_KHashbitsObject
  labelhash :: "nat option"

text \<open>
  The loop over the list of table sizes, shared by \<^verbatim>\<open>khmer_hashbits_new\<close> and
  \<^verbatim>\<open>khmer_labelhash_new\<close>. \<open>None\<close> is the \<^verbatim>\<open>TypeError\<close> exit.
  \<^verbatim>\<open>PyLong_AsUnsignedLongLong\<close> gives all ones for a value out of range.
\<close>

definition PyLong_AsUnsignedLongLong :: "int \<Rightarrow> 64 word" where
  "PyLong_AsUnsignedLongLong n = (if 0 \<le> n \<and> n < 2 ^ 64 then word_of_int n else - 1)"

fun convert_sizes :: "pyobject list \<Rightarrow> 64 word list option" where
  "convert_sizes [] = Some []"
| "convert_sizes (size_o # rest) =
     (case (case size_o of
              PyLong n \<Rightarrow> Some (PyLong_AsUnsignedLongLong n)
            | PyInt n \<Rightarrow> Some (word_of_int n)
            | PyFloat w \<Rightarrow> Some w
            | _ \<Rightarrow> None) of
        None \<Rightarrow> None
      | Some sz \<Rightarrow> (case convert_sizes rest of None \<Rightarrow> None | Some szs \<Rightarrow> Some (sz # szs)))"

text \<open>
  Modelled from the spec: the constructors of the native engines are not part of the
  sources; a new engine has the k-mer size and table sizes it was given, no tags, an
  empty partition engine and, for the labeling engine, an empty label index.
\<close>

definition new_Hashbits :: "8 word \<Rightarrow> 64 word list \<Rightarrow> Hashbits" where
  "new_Hashbits k sizes =
     \<lparr>ksize = k, tablesizes = sizes, all_tags = [], partition' = \<lparr>partition_map = []\<rparr>\<rparr>"

definition new_LabelHash :: "8 word \<Rightarrow> 64 word list \<Rightarrow> LabelHash" where
  "new_LabelHash k sizes =
     \<lparr>ksize = k, tablesizes = sizes, all_tags = [], partition' = \<lparr>partition_map = []\<rparr>,
      label_ptrs = []\<rparr>"

text \<open>
  \<^verbatim>\<open>khmer_hashbits_new\<close> and \<^verbatim>\<open>khmer_labelhash_new\<close>, after
  \<^verbatim>\<open>tp_alloc\<close> and the parsing of \<open>k\<close> and the list have succeeded.
\<close>

definition khmer_hashbits_new ::
  "native_heap \<Rightarrow> 8 word \<Rightarrow> pyobject list \<Rightarrow> khmer_KHashbitsObject py_return \<times> native_heap"
where
  "khmer_hashbits_new heap k sizes_list_o =
     (case convert_sizes sizes_list_o of
        None \<Rightarrow>
          (PyNULL (Some (PyExc_TypeError,
             ''2nd argument must be a list of ints, longs, or floats'')), heap)
      | Some sizes \<Rightarrow>
          (case new heap (N_Hashbits (new_Hashbits k sizes)) of
             (a, heap') \<Rightarrow> (PyObj \<lparr>ob_refcnt = 1, hashbits = Some a\<rparr>, heap')))"

definition khmer_labelhash_new ::
  "native_heap \<Rightarrow> 8 word \<Rightarrow> pyobject list \<Rightarrow> khmer_KLabelHashObject py_return \<times> native_heap"
where
  "khmer_labelhash_new heap k sizes_list_o =
     (case convert_sizes sizes_list_o of
        None \<Rightarrow>
          (PyNULL (Some (PyExc_TypeError,
             ''2nd argument must be a list of ints, longs, or floats'')), heap)
      | Some sizes \<Rightarrow>
          (case new heap (N_LabelHash (new_LabelHash k sizes)) of
             (a, heap') \<Rightarrow>
               (let self = \<lparr>khashbits = \<lparr>ob_refcnt = 1, hashbits = None\<rparr>, labelhash = None\<rparr>;
                    self = self\<lparr>labelhash := Some a\<rparr>;
                    self = self\<lparr>khashbits := (khashbits self)\<lparr>hashbits := labelhash self\<rparr>\<rparr>
                in (PyObj self, heap'))))"

text \<open>\<^verbatim>\<open>khmer_labelhash_dealloc\<close>: one \<^verbatim>\<open>delete\<close>, of the labeling engine.\<close>

definition khmer_labelhash_dealloc :: "native_heap \<Rightarrow> khmer_KLabelHashObject \<Rightarrow> native_heap option" where
  "khmer_labelhash_dealloc heap self =
     (case labelhash self of
        None \<Rightarrow> Some heap
      | Some a \<Rightarrow> (case cell heap a of None \<Rightarrow> None | Some obj \<Rightarrow> Some (delete heap a)))"

text \<open>
  \<^verbatim>\<open>hashbits_n_tags\<close>, a method of the presence engine's wrapper that the labeling
  engine's Python type inherits: it reads \<^verbatim>\<open>me->hashbits\<close>. The engine's
  \<^verbatim>\<open>Hashbits::n_tags\<close> is an argument.
\<close>

definition hashbits_n_tags ::
  "(Hashbits \<Rightarrow> nat) \<Rightarrow> native_heap \<Rightarrow> khmer_KHashbitsObject \<Rightarrow> nat py_return"
where
  "hashbits_n_tags n_tags heap me =
     (case hashbits me of
        None \<Rightarrow> NoReturn NullDereference
      | Some a \<Rightarrow>
          (case deref_Hashbits heap (Some a) of
             None \<Rightarrow> NoReturn WildPointer
           | Some hb \<Rightarrow> PyObj (n_tags hb)))"

section \<open>Parser objects, pair iterators and their reference counts\<close>

text \<open>
  \<^verbatim>\<open>khmer_ReadParser_Object\<close>: the object head and the pointer to the native parser.
\<close>

record khmer_ReadParser_Object = PyObject_HEAD +
  parser :: nat

text \<open>
  The Python objects of the two types, each type in a heap of its own; an address is an
  index, and \<^verbatim>\<open>tp_free\<close> leaves \<open>None\<close> behind. Touching an object that has been
  freed is undefined in C; the operations below return \<open>None\<close> for it.
\<close>

record py_heap =
  parsers :: "khmer_ReadParser_Object option list"
  iterators :: "khmer_ReadPairIterator_Object option list"

definition Py_INCREF_ReadParser :: "py_heap \<Rightarrow> nat \<Rightarrow> py_heap option" where
  "Py_INCREF_ReadParser h a =
     (case cell (parsers h) a of
        None \<Rightarrow> None
      | Some obj \<Rightarrow>
          Some (h\<lparr>parsers := (parsers h)[a := Some (obj\<lparr>ob_refcnt := ob_refcnt obj + 1\<rparr>)]\<rparr>))"







text \<open>
  \<^verbatim>\<open>ReadParser_iter_read_pairs\<close>. \<open>arg\<close> is the optional pair mode: when it is not
  given, \<^verbatim>\<open>pair_mode\<close> keeps the value it was initialised with.
\<close>

definition ReadParser_iter_read_pairs ::
  "py_heap \<Rightarrow> nat \<Rightarrow> 32 word option \<Rightarrow> (nat \<times> py_heap) option"
where
  "ReadParser_iter_read_pairs h self arg =
     (let pair_mode0 = PAIR_MODE_ERROR_ON_UNPAIRED;
          pair_mode1 = (case arg of None \<Rightarrow> pair_mode0 | Some m \<Rightarrow> m);
          obj = length (iterators h);
          rpi = \<lparr>ob_refcnt = 1, parent = self, pair_mode = pair_mode1\<rparr>;
          h1 = h\<lparr>iterators := iterators h @ [Some rpi]\<rparr>
      in case Py_INCREF_ReadParser h1 self of
           None \<Rightarrow> None
         | Some h2 \<Rightarrow> Some (obj, h2))"

subsection \<open>The host holding references\<close>











text \<open>
  The invariant of reference counting. The count of a live parser object is the number
  of references the host holds to it plus the number of live pair iterators whose
  \<^verbatim>\<open>parent\<close> it is, and it is positive; the count of a live pair iterator is the
  number of references the host holds to it, and it is positive; nothing refers to an
  object that is not live.
\<close>

definition has_parent :: "nat \<Rightarrow> khmer_ReadPairIterator_Object option \<Rightarrow> bool" where
  "has_parent a x = (case x of None \<Rightarrow> False | Some it \<Rightarrow> parent it = a)"

definition iter_refs :: "py_heap \<Rightarrow> nat \<Rightarrow> nat" where
  "iter_refs h a = length (filter (has_parent a) (iterators h))"




section \<open>Notions used in the properties\<close>

text \<open>
  An interpreter with no signal pending, no error set, no default callback and no call
  made; and the message that a caught C++ exception gives (\<^verbatim>\<open>get_message()\<close> of
  \<^verbatim>\<open>_khmer_signal\<close>, \<^verbatim>\<open>what()\<close> of \<^verbatim>\<open>khmer_file_exception\<close>).
\<close>

definition idle :: interp where
  "idle = \<lparr>signal_pending = False, error_indicator = None, callback_obj_default = None,
           calls = []\<rparr>"

definition what :: "cxx_exception \<Rightarrow> string" where
  "what x = (case x of khmer_signal message \<Rightarrow> message | khmer_file_exception w \<Rightarrow> w)"

section \<open>Properties of record iteration\<close>

lemma pulls_exhausted:
  "pulls st stream_is_complete stream_imprint_next_read k [] = (replicate k (PyNULL None), [])"
  by (induction k) (simp_all add: ReadParser_iternext_def stream_is_complete_def)

text \<open>
  C1. Over a stream of N well-formed records, the first N pulls return the N records in
  the order of the input; every pull after that returns \<^verbatim>\<open>NULL\<close> with the
  error indicator clear, which is the normal end of the iteration and not a raised
  failure; this holds for however many further pulls are made.
\<close>

theorem ReadParser_iternext_yields_all_then_stops:
  "pulls st stream_is_complete stream_imprint_next_read (length rs + k) (map WellFormed rs)
     = (map PyObj rs @ replicate k (PyNULL None), [])"
proof (induction rs)
  case Nil
  show ?case by (simp add: pulls_exhausted)
next
  case (Cons r rs)
  then show ?case
    by (simp add: ReadParser_iternext_def stream_is_complete_def)
qed

text \<open>Two records and three pulls past them.\<close>

theorem ReadParser_iternext_two_records:
  "pulls (\<lambda>exc. []) stream_is_complete stream_imprint_next_read 5
     [WellFormed \<lparr>name = ''r1'', sequence = ''ACGT'', accuracy = [], annotations = []\<rparr>,
      WellFormed \<lparr>name = ''r2'', sequence = ''GGCC'', accuracy = [], annotations = []\<rparr>]
   = ([PyObj \<lparr>name = ''r1'', sequence = ''ACGT'', accuracy = [], annotations = []\<rparr>,
       PyObj \<lparr>name = ''r2'', sequence = ''GGCC'', accuracy = [], annotations = []\<rparr>,
       PyNULL None, PyNULL None, PyNULL None], [])"
  using ReadParser_iternext_yields_all_then_stops
    [of "\<lambda>exc. []"
        "[\<lparr>name = ''r1'', sequence = ''ACGT'', accuracy = [], annotations = []\<rparr>,
          \<lparr>name = ''r2'', sequence = ''GGCC'', accuracy = [], annotations = []\<rparr>]" 3]
  by (simp add: numeral_eq_Suc)

section \<open>Properties of pair iteration\<close>

text \<open>Which native outcome becomes which host outcome.\<close>

lemma ReadPairIterator_iternext_complete:
  "ic p \<Longrightarrow> ReadPairIterator_iternext ic np myself p = (PyNULL None, p)"
  by (simp add: ReadPairIterator_iternext_def)

lemma ReadPairIterator_iternext_pair:
  "\<not> ic p \<Longrightarrow> np p (ucast (pair_mode myself)) = (Inr pr, p') \<Longrightarrow>
     ReadPairIterator_iternext ic np myself p = (PyObj (first pr, second pr), p')"
  by (simp add: ReadPairIterator_iternext_def)

lemma ReadPairIterator_iternext_throw:
  "\<not> ic p \<Longrightarrow> np p (ucast (pair_mode myself)) = (Inl e, p') \<Longrightarrow>
     ReadPairIterator_iternext ic np myself p =
       (PyNULL (case e of
                  NoMoreReadsAvailable \<Rightarrow> None
                | UnknownPairReadingMode \<Rightarrow> Some unknown_pair_reading_mode_error
                | InvalidReadPair \<Rightarrow> Some invalid_read_pair_error
                | StreamReadError exc \<Rightarrow> Some stream_read_error), p')"
  by (cases e) (simp_all add: ReadPairIterator_iternext_def)




lemma logged_is_complete_simp: "logged_is_complete ic (p, modes) = ic p"
  by (simp add: logged_is_complete_def)

lemma logged_imprint_simp:
  "logged_imprint_next_read_pair np (p, modes) m =
     (case np p m of (r, p') \<Rightarrow> (r, (p', modes @ [m])))"
  by (simp add: logged_imprint_next_read_pair_def)

text \<open>
  One pull, seen on the log: nothing is added when the parser is complete, and
  otherwise exactly the iterator's pair mode is added and the parser goes on from the
  state its call leaves.
\<close>

lemma iternext_logged_state:
  "snd (ReadPairIterator_iternext (logged_is_complete ic) (logged_imprint_next_read_pair np)
          it (p, modes))
     = (if ic p then (p, modes)
        else (snd (np p (ucast (pair_mode it))), modes @ [ucast (pair_mode it)]))"
proof (cases "ic p")
  case True
  then show ?thesis by (simp add: ReadPairIterator_iternext_def logged_is_complete_simp)
next
  case False
  obtain r p' where np: "np p (ucast (pair_mode it)) = (r, p')"
    by (cases "np p (ucast (pair_mode it))")
  with False show ?thesis
    by (cases r)
       (simp_all add: ReadPairIterator_iternext_def logged_is_complete_simp
          logged_imprint_simp Let_def split: parser_exception.splits)
qed

lemma pair_pulls_logged_state:
  "snd (snd (pair_pulls (logged_is_complete ic) (logged_imprint_next_read_pair np)
               n it (p, modes)))
     = modes @ replicate (parser_calls ic np (ucast (pair_mode it)) n p) (ucast (pair_mode it))"
proof (induction n arbitrary: p modes)
  case 0
  show ?case by simp
next
  case (Suc n)
  let ?m = "ucast (pair_mode it) :: 8 word"
  obtain r q where st:
    "ReadPairIterator_iternext (logged_is_complete ic) (logged_imprint_next_read_pair np)
       it (p, modes) = (r, q)"
    by (cases "ReadPairIterator_iternext (logged_is_complete ic)
                 (logged_imprint_next_read_pair np) it (p, modes)")
  with iternext_logged_state[of ic np it p modes]
  have q: "q = (if ic p then (p, modes) else (snd (np p ?m), modes @ [?m]))" by simp
  obtain rs q' where rest:
    "pair_pulls (logged_is_complete ic) (logged_imprint_next_read_pair np) n it q = (rs, q')"
    by (cases "pair_pulls (logged_is_complete ic) (logged_imprint_next_read_pair np) n it q")
  have "snd (snd (pair_pulls (logged_is_complete ic) (logged_imprint_next_read_pair np)
               (Suc n) it (p, modes))) = snd q'"
    using st rest by simp
  also have "snd q' = snd (snd (pair_pulls (logged_is_complete ic)
                 (logged_imprint_next_read_pair np) n it q))"
    using rest by simp
  also have "\<dots> = modes @ replicate (parser_calls ic np ?m (Suc n) p) ?m"
  proof (cases "ic p")
    case True
    with q Suc[of p modes] show ?thesis by simp
  next
    case False
    with q Suc[of "snd (np p ?m)" "modes @ [?m]"] show ?thesis
      by (simp add: replicate_append_same)
  qed
  finally show ?case .
qed

lemma iter_read_pairs_default:
  "ReadParser_iter_read_pairs h self None = Some (i, h') \<Longrightarrow>
     \<exists>it. cell (iterators h') i = Some it \<and> pair_mode it = PAIR_MODE_ERROR_ON_UNPAIRED
          \<and> parent it = self"
  by (auto simp: ReadParser_iter_read_pairs_def Py_INCREF_ReadParser_def Let_def cell_def
        nth_append split: option.splits)

text \<open>
  C10. A pair iterator made by \<^verbatim>\<open>iter_read_pairs\<close> with no argument has
  \<^verbatim>\<open>IParser::PAIR_MODE_ERROR_ON_UNPAIRED\<close> in its \<^verbatim>\<open>pair_mode\<close> field, and
  narrowing to \<^verbatim>\<open>uint8_t\<close> does not change that value. Pulling does not write
  the field. With any native parser, every pull at which the parser is not complete
  makes exactly one native call, and the pair mode of that call is that value; a pull
  at which the parser is complete makes none. So after any number of pulls the pair
  modes that the parser has received are that value, once for every call the pulls
  had to make.
\<close>

theorem iter_read_pairs_default_mode:
  assumes "ReadParser_iter_read_pairs h self None = Some (i, h')"
  shows "\<exists>it. cell (iterators h') i = Some it
          \<and> pair_mode it = PAIR_MODE_ERROR_ON_UNPAIRED
          \<and> uint (ucast PAIR_MODE_ERROR_ON_UNPAIRED :: 8 word) = uint PAIR_MODE_ERROR_ON_UNPAIRED
          \<and> (\<forall>(ic :: 'p \<Rightarrow> bool) np p modes.
               snd (ReadPairIterator_iternext (logged_is_complete ic)
                      (logged_imprint_next_read_pair np) it (p, modes))
                 = (if ic p then (p, modes)
                    else (snd (np p (ucast PAIR_MODE_ERROR_ON_UNPAIRED)),
                          modes @ [ucast PAIR_MODE_ERROR_ON_UNPAIRED])))
          \<and> (\<forall>(ic :: 'p \<Rightarrow> bool) np n p.
               snd (snd (pair_pulls (logged_is_complete ic) (logged_imprint_next_read_pair np)
                           n it (p, [])))
                 = replicate (parser_calls ic np (ucast PAIR_MODE_ERROR_ON_UNPAIRED) n p)
                     (ucast PAIR_MODE_ERROR_ON_UNPAIRED))"
proof -
  from iter_read_pairs_default[OF assms] obtain it where
    it: "cell (iterators h') i = Some it" "pair_mode it = PAIR_MODE_ERROR_ON_UNPAIRED"
    by blast
  have one: "snd (ReadPairIterator_iternext (logged_is_complete ic)
                      (logged_imprint_next_read_pair np) it (p, modes))
                 = (if ic p then (p, modes)
                    else (snd (np p (ucast PAIR_MODE_ERROR_ON_UNPAIRED)),
                          modes @ [ucast PAIR_MODE_ERROR_ON_UNPAIRED]))"
    for ic :: "'p \<Rightarrow> bool" and np p modes
    using iternext_logged_state[of ic np it p modes] it(2) by simp
  have many: "snd (snd (pair_pulls (logged_is_complete ic) (logged_imprint_next_read_pair np)
                           n it (p, [])))
                 = replicate (parser_calls ic np (ucast PAIR_MODE_ERROR_ON_UNPAIRED) n p)
                     (ucast PAIR_MODE_ERROR_ON_UNPAIRED)"
    for ic :: "'p \<Rightarrow> bool" and np n p
    using pair_pulls_logged_state[of ic np n it p "[]"] it(2) by simp
  have same:
    "uint (ucast PAIR_MODE_ERROR_ON_UNPAIRED :: 8 word) = uint PAIR_MODE_ERROR_ON_UNPAIRED"
    by (simp add: PAIR_MODE_ERROR_ON_UNPAIRED_def)
  show ?thesis
  proof (intro exI[of _ it] conjI allI)
    show "cell (iterators h') i = Some it" by (rule it(1))
    show "pair_mode it = PAIR_MODE_ERROR_ON_UNPAIRED" by (rule it(2))
    show "uint (ucast PAIR_MODE_ERROR_ON_UNPAIRED :: 8 word) = uint PAIR_MODE_ERROR_ON_UNPAIRED"
      by (rule same)
  qed (rule one many)+
qed

text \<open>
  A parser object at address 0 is asked for a pair iterator with no argument; the
  native parser behind it is never complete and finds a pair at every call. Three
  pulls make three calls, each with pair mode 2.
\<close>

theorem iter_read_pairs_default_mode_example:
  "\<exists>it h'.
     ReadParser_iter_read_pairs
       \<lparr>parsers = [Some \<lparr>ob_refcnt = 1, parser = 0\<rparr>], iterators = []\<rparr> 0 None
       = Some (0, h')
     \<and> cell (iterators h') 0 = Some it
     \<and> pair_mode it = 2
     \<and> snd (snd (pair_pulls (logged_is_complete never_complete)
                    (logged_imprint_next_read_pair
                       (always_finds
                          \<lparr>first = \<lparr>name = ''r/1'', sequence = ''ACGT'', accuracy = [],
                                     annotations = []\<rparr>,
                           second = \<lparr>name = ''r/2'', sequence = ''GGCC'', accuracy = [],
                                      annotations = []\<rparr>\<rparr>))
                    3 it ((), [])))
         = [2, 2, 2]"
proof -
  let ?h = "\<lparr>parsers = [Some \<lparr>ob_refcnt = 1, parser = 0\<rparr>], iterators = []\<rparr>"
  let ?np = "always_finds
               \<lparr>first = \<lparr>name = ''r/1'', sequence = ''ACGT'', accuracy = [], annotations = []\<rparr>,
                second = \<lparr>name = ''r/2'', sequence = ''GGCC'', accuracy = [],
                           annotations = []\<rparr>\<rparr>"
  obtain h' where r: "ReadParser_iter_read_pairs ?h 0 None = Some (0, h')"
    by (simp add: ReadParser_iter_read_pairs_def Py_INCREF_ReadParser_def cell_def Let_def)
  from iter_read_pairs_default_mode[where ?'p = unit, OF r] obtain it where
    it: "cell (iterators h') 0 = Some it" "pair_mode it = PAIR_MODE_ERROR_ON_UNPAIRED"
        "\<And>ic np n p.
           snd (snd (pair_pulls (logged_is_complete ic) (logged_imprint_next_read_pair np)
                       n it ((p::unit), [])))
             = replicate (parser_calls ic np (ucast PAIR_MODE_ERROR_ON_UNPAIRED) n p)
                 (ucast PAIR_MODE_ERROR_ON_UNPAIRED)"
    by blast
  have calls3: "parser_calls never_complete ?np 2 3 () = 3"
    by (simp add: numeral_eq_Suc never_complete_def)
  have three: "replicate 3 (2 :: 8 word) = [2, 2, 2]"
    by (simp add: numeral_eq_Suc)
  from it(3)[of never_complete ?np 3 "()"] calls3
  have "snd (snd (pair_pulls (logged_is_complete never_complete)
                    (logged_imprint_next_read_pair ?np) 3 it ((), []))) = replicate 3 2"
    by (simp add: PAIR_MODE_ERROR_ON_UNPAIRED_def)
  then
  have "snd (snd (pair_pulls (logged_is_complete never_complete)
                    (logged_imprint_next_read_pair ?np) 3 it ((), []))) = [2, 2, 2]"
    by (simp only: three)
  with r it(1,2) show ?thesis by (auto simp: PAIR_MODE_ERROR_ON_UNPAIRED_def)
qed

section \<open>Properties of the reporting callback\<close>

lemma PyObject_Call_calls:
  "calls (PyObject_Call s obj args) = calls s @ [(obj, args)]"
  by (simp add: PyObject_Call_def Let_def split: pyobject.splits option.splits)

lemma set_reporting_callback_default:
  "callback_obj_default (set_reporting_callback s obj) = Some obj"
  by (simp add: set_reporting_callback_def)

text \<open>
  C2. The calls that one run of \<^verbatim>\<open>_report_fn\<close> makes are those of the spec's
  rule: with no signal pending it calls the observer passed to it, if one was passed
  and it is not \<^verbatim>\<open>None\<close>; it calls the process-wide default only when no observer
  was passed; and when \<^verbatim>\<open>None\<close> was passed it calls nothing, whatever the default
  is. With a signal pending it throws before any call.
\<close>

theorem report_fn_observer:
  "calls (state_after (report_fn s info data n_reads other)) =
     calls s @
       (if signal_pending s then []
        else (case spec_observer data (callback_obj_default s) of
                None \<Rightarrow> []
              | Some obj \<Rightarrow> [(obj, info, n_reads, other)]))"
  by (cases data; cases "callback_obj_default s")
     (auto simp: report_fn_def state_after_def PyErr_CheckSignals_def spec_observer_def
        PyObject_Call_calls Let_def split: pyobject.splits option.splits)

text \<open>
  A default is registered; a call that passes its own observer reaches that one, and a
  call that passes \<^verbatim>\<open>None\<close> reaches nothing.
\<close>

theorem report_fn_observer_override:
  "calls (state_after (report_fn (set_reporting_callback idle (PyCallable 1 None))
            ''consume_fasta'' (Some (PyCallable 2 None)) 10 20))
     = [(PyCallable 2 None, ''consume_fasta'', 10, 20)]
   \<and> calls (state_after (report_fn (set_reporting_callback idle (PyCallable 1 None))
            ''consume_fasta'' (Some Py_None) 10 20)) = []
   \<and> calls (state_after (report_fn (set_reporting_callback idle (PyCallable 1 None))
            ''consume_fasta'' None 10 20))
     = [(PyCallable 1 None, ''consume_fasta'', 10, 20)]"
  using report_fn_observer
      [of "set_reporting_callback idle (PyCallable 1 None)" "''consume_fasta''"
          "Some (PyCallable 2 None)" 10 20]
    report_fn_observer
      [of "set_reporting_callback idle (PyCallable 1 None)" "''consume_fasta''"
          "Some Py_None" 10 20]
    report_fn_observer
      [of "set_reporting_callback idle (PyCallable 1 None)" "''consume_fasta''" None 10 20]
  by (simp add: set_reporting_callback_def idle_def spec_observer_def)

section \<open>Properties of a failing consume\<close>

lemma report_fn_message:
  "report_fn s info data n other = Inl (m, s') \<Longrightarrow>
     m = ''PyErr_CheckSignals received a signal'' \<or> m = ''PyErr_Occurred is set''"
  by (auto simp: report_fn_def PyErr_CheckSignals_def Let_def split: if_splits prod.splits)

lemma engine_run_signal_message:
  "engine_run es data t n s = Inl (khmer_signal m, t', n', s') \<Longrightarrow>
     m = ''PyErr_CheckSignals received a signal'' \<or> m = ''PyErr_Occurred is set''"
proof (induction es data t n s rule: engine_run.induct)
  case (3 info es data total_reads n_consumed s)
  then show ?case
    by (auto split: sum.splits prod.splits dest: report_fn_message)
qed simp_all

text \<open>
  C4, as the claim states it, fails: an observer that raises cancels one run, the
  engine fails in another with a file error whose text is that of the cancellation,
  and \<^verbatim>\<open>hash_consume_fasta\<close> hands the host the same failure for both.
\<close>

theorem cancelled_and_engine_failure_coincide:
  "engine_run [Report ''consume_fasta'']
      (Some (PyCallable 0 (Some (PyExc_ValueError, ''stop'')))) 0 0 idle
     = Inl (khmer_signal ''PyErr_Occurred is set'', 0, 0,
            idle\<lparr>calls := [(PyCallable 0 (Some (PyExc_ValueError, ''stop'')),
                              ''consume_fasta'', 0, 0)],
                 error_indicator := Some (PyExc_ValueError, ''stop'')\<rparr>)
   \<and> engine_run [File_error ''PyErr_Occurred is set''] None 0 0 idle
     = Inl (khmer_file_exception ''PyErr_Occurred is set'', 0, 0, idle)
   \<and> fst (hash_consume_fasta [Report ''consume_fasta''] idle
            (Some (PyCallable 0 (Some (PyExc_ValueError, ''stop'')))))
     = fst (hash_consume_fasta [File_error ''PyErr_Occurred is set''] idle None)"
  by (simp add: hash_consume_fasta_def report_fn_def PyErr_CheckSignals_def PyObject_Call_def
        PyErr_SetString_def idle_def Let_def)

text \<open>
  C4, amended. A cancelled run and a run in which the engine fails both come back from
  \<^verbatim>\<open>hash_consume_fasta\<close> as \<^verbatim>\<open>IOError\<close>. The cancellation carries one of the
  two fixed messages of \<^verbatim>\<open>_report_fn\<close>, the engine failure carries the engine's
  own message, and the two failures differ exactly when these messages differ.
\<close>

theorem cancelled_and_engine_failure_are_IOError:
  assumes "engine_run e1 cb1 0 0 s1 = Inl (khmer_signal m, t1, n1, s1')"
      and "engine_run e2 cb2 0 0 s2 = Inl (khmer_file_exception msg, t2, n2, s2')"
  shows "fst (hash_consume_fasta e1 s1 cb1) = PyNULL (Some (PyExc_IOError, m))
       \<and> fst (hash_consume_fasta e2 s2 cb2) = PyNULL (Some (PyExc_IOError, msg))
       \<and> (m = ''PyErr_CheckSignals received a signal'' \<or> m = ''PyErr_Occurred is set'')
       \<and> (fst (hash_consume_fasta e1 s1 cb1) = fst (hash_consume_fasta e2 s2 cb2)) = (msg = m)"
  using assms engine_run_signal_message[OF assms(1)]
  by (auto simp: hash_consume_fasta_def PyErr_SetString_def Let_def)

text \<open>A pending signal in one run, a file that cannot be opened in the other.\<close>

theorem cancelled_and_engine_failure_example:
  "fst (hash_consume_fasta [Consumed 1 4, Report ''consume_fasta'']
          (idle\<lparr>signal_pending := True\<rparr>) None)
     = PyNULL (Some (PyExc_IOError, ''PyErr_CheckSignals received a signal''))
   \<and> fst (hash_consume_fasta [File_error ''no such file''] idle None)
     = PyNULL (Some (PyExc_IOError, ''no such file''))"
proof -
  have a: "engine_run [Consumed 1 4, Report ''consume_fasta''] None 0 0
             (idle\<lparr>signal_pending := True\<rparr>)
           = Inl (khmer_signal ''PyErr_CheckSignals received a signal'', 1, 4,
                  idle\<lparr>error_indicator := Some (PyExc_KeyboardInterrupt, [])\<rparr>)"
    by (simp add: report_fn_def PyErr_CheckSignals_def idle_def)
  have b: "engine_run [File_error ''no such file''] None 0 0 idle
           = Inl (khmer_file_exception ''no such file'', 0, 0, idle)"
    by simp
  from cancelled_and_engine_failure_are_IOError[OF a b] show ?thesis by simp
qed

text \<open>
  C5, as the claim states it, fails: two runs are interrupted by a signal, one after 3
  reads and 30 k-mers, the other after 7 reads and 70 k-mers, and
  \<^verbatim>\<open>hash_consume_fasta\<close> leaves the host with the same result and the same
  interpreter state for both.
\<close>

theorem failure_does_not_tell_counts:
  "engine_run [Consumed 3 30, Report ''consume_fasta''] None 0 0
      (idle\<lparr>signal_pending := True\<rparr>)
     = Inl (khmer_signal ''PyErr_CheckSignals received a signal'', 3, 30,
            idle\<lparr>error_indicator := Some (PyExc_KeyboardInterrupt, [])\<rparr>)
   \<and> engine_run [Consumed 7 70, Report ''consume_fasta''] None 0 0
      (idle\<lparr>signal_pending := True\<rparr>)
     = Inl (khmer_signal ''PyErr_CheckSignals received a signal'', 7, 70,
            idle\<lparr>error_indicator := Some (PyExc_KeyboardInterrupt, [])\<rparr>)
   \<and> hash_consume_fasta [Consumed 3 30, Report ''consume_fasta'']
        (idle\<lparr>signal_pending := True\<rparr>) None
     = hash_consume_fasta [Consumed 7 70, Report ''consume_fasta'']
        (idle\<lparr>signal_pending := True\<rparr>) None"
  by (simp add: hash_consume_fasta_def report_fn_def PyErr_CheckSignals_def PyObject_Call_def
        PyErr_SetString_def idle_def Let_def)

text \<open>
  C5, amended. When the engine throws, \<^verbatim>\<open>hash_consume_fasta\<close> and
  \<^verbatim>\<open>hashbits_consume_fasta_and_tag\<close> return \<^verbatim>\<open>NULL\<close> with \<^verbatim>\<open>IOError\<close> set
  to the message of the exception and nothing else: the counts reached do not enter the
  failure. The counts are returned, as a pair, when the engine completes.
\<close>

theorem consume_failure_is_message_only:
  "(engine_run e cb 0 0 s = Inl (x, t, n, s') \<longrightarrow>
      hash_consume_fasta e s cb =
        (PyNULL (Some (PyExc_IOError, what x)), PyErr_SetString s' PyExc_IOError (what x)))
   \<and> (engine_run e cb 0 0 s = Inr (t, n, s') \<longrightarrow>
      hash_consume_fasta e s cb = (PyObj (t, n), s'))
   \<and> (engine_run e cb t0 n0 s = Inl (x, t, n, s') \<longrightarrow>
      hashbits_consume_fasta_and_tag e t0 n0 s cb =
        (PyNULL (Some (PyExc_IOError, what x)), PyErr_SetString s' PyExc_IOError (what x)))
   \<and> (engine_run e cb t0 n0 s = Inr (t, n, s') \<longrightarrow>
      hashbits_consume_fasta_and_tag e t0 n0 s cb = (PyObj (t, n), s'))"
  by (cases x) (auto simp: hash_consume_fasta_def hashbits_consume_fasta_and_tag_def
      PyErr_SetString_def what_def Let_def)

text \<open>A run that an observer stops after 3 reads, and a run that completes.\<close>

theorem consume_failure_example:
  "hash_consume_fasta [Consumed 3 30, Report ''consume_fasta''] idle
      (Some (PyCallable 0 (Some (PyExc_ValueError, ''stop''))))
     = (PyNULL (Some (PyExc_IOError, ''PyErr_Occurred is set'')),
        idle\<lparr>calls := [(PyCallable 0 (Some (PyExc_ValueError, ''stop'')),
                          ''consume_fasta'', 3, 30)],
             error_indicator := Some (PyExc_IOError, ''PyErr_Occurred is set'')\<rparr>)
   \<and> hash_consume_fasta [Consumed 3 30, Report ''consume_fasta'', Consumed 2 20] idle None
     = (PyObj (5, 50), idle)"
proof -
  let ?cb = "Some (PyCallable 0 (Some (PyExc_ValueError, ''stop'')))"
  let ?s' = "idle\<lparr>calls := [(PyCallable 0 (Some (PyExc_ValueError, ''stop'')),
                               ''consume_fasta'', 3, 30)],
                  error_indicator := Some (PyExc_ValueError, ''stop'')\<rparr>"
  have a: "engine_run [Consumed 3 30, Report ''consume_fasta''] ?cb 0 0 idle
           = Inl (khmer_signal ''PyErr_Occurred is set'', 3, 30, ?s')"
    by (simp add: report_fn_def PyErr_CheckSignals_def PyObject_Call_def idle_def Let_def)
  have b: "engine_run [Consumed 3 30, Report ''consume_fasta'', Consumed 2 20] None 0 0 idle
           = Inr (5, 50, idle)"
    by (simp add: report_fn_def PyErr_CheckSignals_def idle_def Let_def)
  from consume_failure_is_message_only
         [of "[Consumed 3 30, Report ''consume_fasta'']" ?cb idle
             "khmer_signal ''PyErr_Occurred is set''" 3 30 ?s']
       a
  have 1: "hash_consume_fasta [Consumed 3 30, Report ''consume_fasta''] idle ?cb
           = (PyNULL (Some (PyExc_IOError, ''PyErr_Occurred is set'')),
              PyErr_SetString ?s' PyExc_IOError ''PyErr_Occurred is set'')"
    by (simp add: what_def)
  from consume_failure_is_message_only
         [of "[Consumed 3 30, Report ''consume_fasta'', Consumed 2 20]" None idle _ 5 50 idle]
       b
  have 2: "hash_consume_fasta [Consumed 3 30, Report ''consume_fasta'', Consumed 2 20] idle None
           = (PyObj (5, 50), idle)"
    by simp
  from 1 2 show ?thesis by (simp add: PyErr_SetString_def idle_def)
qed

section \<open>Properties of handle-taking operations\<close>

lemma not_valid_GetPointer_NULL:
  "\<not> PyCapsule_IsValid obj nm \<Longrightarrow> pointer_of (PyCapsule_GetPointer obj nm) = None"
  by (auto simp: PyCapsule_IsValid_def PyCapsule_GetPointer_def pointer_of_def
        split: pyobject.splits)

text \<open>The two operations that check the kind report a mismatch as \<^verbatim>\<open>ValueError\<close>.\<close>

lemma hashbits_assign_partition_id_checks:
  "\<not> PyCapsule_IsValid obj ''khmer.pre_partition_info'' \<Longrightarrow>
     hashbits_assign_partition_id ap nh me obj
       = (PyNULL (Some (PyExc_ValueError, ''invalid pre_partition_info'')), nh)"
  by (simp add: hashbits_assign_partition_id_def)

lemma hashbits_merge_subset_checks:
  "\<not> PyCapsule_IsValid obj ''khmer.SubsetPartition'' \<Longrightarrow>
     hashbits_merge_subset mg nh me obj
       = (PyNULL (Some (PyExc_ValueError, ''invalid subset'')), nh)"
  by (simp add: hashbits_merge_subset_def)

text \<open>The two that do not check go on with the null pointer.\<close>

lemma hashbits_subset_count_partitions_unchecked:
  "\<not> PyCapsule_IsValid obj ''khmer.SubsetPartition'' \<Longrightarrow>
     hashbits_subset_count_partitions cp nh obj = NoReturn NullDereference"
  by (simp add: hashbits_subset_count_partitions_def not_valid_GetPointer_NULL)

lemma hashbits_save_subset_partitionmap_unchecked:
  "\<not> PyCapsule_IsValid obj ''khmer.SubsetPartition'' \<Longrightarrow>
     hashbits_save_subset_partitionmap fs nh obj filename = (NoReturn NullDereference, fs)"
  by (simp add: hashbits_save_subset_partitionmap_def not_valid_GetPointer_NULL)

text \<open>
  C3. The code at a handle of the wrong kind. Given the capsule of a partial partition
  info, or \<^verbatim>\<open>None\<close>, \<^verbatim>\<open>hashbits_subset_count_partitions\<close> and
  \<^verbatim>\<open>hashbits_save_subset_partitionmap\<close> do not report a failure: they dereference
  the null pointer that \<^verbatim>\<open>PyCapsule_GetPointer\<close> returned.
  \<^verbatim>\<open>hashbits_merge_subset\<close>, which takes the same kind of handle, reports
  \<^verbatim>\<open>ValueError\<close> for the same arguments.
\<close>

theorem wrong_kind_handle_is_dereferenced:
  "hashbits_subset_count_partitions cp
      [Some (N_pre_partition_info \<lparr>kmer = 5, tagged_kmers = [5, 9]\<rparr>)]
      (PyCapsule ''khmer.pre_partition_info'' 0) = NoReturn NullDereference
   \<and> hashbits_subset_count_partitions cp [] Py_None = NoReturn NullDereference
   \<and> fst (hashbits_save_subset_partitionmap fs
            [Some (N_pre_partition_info \<lparr>kmer = 5, tagged_kmers = [5, 9]\<rparr>)]
            (PyCapsule ''khmer.pre_partition_info'' 0) ''out.pmap'')
       = NoReturn NullDereference
   \<and> fst (hashbits_merge_subset mg
            [Some (N_pre_partition_info \<lparr>kmer = 5, tagged_kmers = [5, 9]\<rparr>)] me
            (PyCapsule ''khmer.pre_partition_info'' 0))
       = PyNULL (Some (PyExc_ValueError, ''invalid subset''))"
  by (simp add: hashbits_subset_count_partitions_def hashbits_save_subset_partitionmap_def
      hashbits_merge_subset_def PyCapsule_IsValid_def PyCapsule_GetPointer_def pointer_of_def)

text \<open>
  C9. For a handle of a detached partition sub-engine, saving its partition map to a
  path succeeds, loading from that path afterwards gives a new handle of the same
  kind, and the sub-engine behind the new handle assigns to every key the partition id
  that the original assigns to it.
\<close>

theorem save_load_partitionmap_roundtrip:
  assumes "cell nh a = Some (N_SubsetPartition sp)"
  shows "\<exists>fs' nh' sp'.
      hashbits_save_subset_partitionmap fs nh (PyCapsule ''khmer.SubsetPartition'' a) path
        = (PyObj (), fs')
    \<and> hashbits_load_subset_partitionmap fs' nh path
        = (PyObj (PyCapsule ''khmer.SubsetPartition'' (length nh)), nh')
    \<and> cell nh' (length nh) = Some (N_SubsetPartition sp')
    \<and> (\<forall>k. get_partition_id sp' k = get_partition_id sp k)"
  using assms
  by (auto simp: hashbits_save_subset_partitionmap_def hashbits_load_subset_partitionmap_def
      PyCapsule_GetPointer_def pointer_of_def save_partitionmap_def load_partitionmap_def
      new_def Let_def cell_def get_partition_id_def)

text \<open>A sub-engine with two tagged keys, saved and loaded again.\<close>

theorem save_load_partitionmap_example:
  "\<exists>fs' nh' sp'.
      hashbits_save_subset_partitionmap (\<lambda>f. None)
        [Some (N_SubsetPartition \<lparr>partition_map = [(17, 1), (42, 2)]\<rparr>)]
        (PyCapsule ''khmer.SubsetPartition'' 0) ''a.pmap'' = (PyObj (), fs')
    \<and> hashbits_load_subset_partitionmap fs'
        [Some (N_SubsetPartition \<lparr>partition_map = [(17, 1), (42, 2)]\<rparr>)] ''a.pmap''
        = (PyObj (PyCapsule ''khmer.SubsetPartition'' 1), nh')
    \<and> cell nh' 1 = Some (N_SubsetPartition sp')
    \<and> get_partition_id sp' 17 = Some 1 \<and> get_partition_id sp' 42 = Some 2"
proof -
  let ?sp = "\<lparr>partition_map = [(17, 1), (42, 2)]\<rparr>"
  have c: "cell [Some (N_SubsetPartition ?sp)] 0 = Some (N_SubsetPartition ?sp)"
    by (simp add: cell_def)
  from save_load_partitionmap_roundtrip[OF c, of "\<lambda>f. None" "''a.pmap''"]
  obtain fs' nh' sp' where
    r: "hashbits_save_subset_partitionmap (\<lambda>f. None) [Some (N_SubsetPartition ?sp)]
          (PyCapsule ''khmer.SubsetPartition'' 0) ''a.pmap'' = (PyObj (), fs')"
       "hashbits_load_subset_partitionmap fs' [Some (N_SubsetPartition ?sp)] ''a.pmap''
          = (PyObj (PyCapsule ''khmer.SubsetPartition'' 1), nh')"
       "cell nh' 1 = Some (N_SubsetPartition sp')"
       "\<And>k. get_partition_id sp' k = get_partition_id ?sp k"
    by auto
  have "get_partition_id sp' 17 = Some 1" "get_partition_id sp' 42 = Some 2"
    using r(4) by (simp_all add: get_partition_id_def)
  with r show ?thesis by blast
qed

section \<open>Properties of the labeling engine's wrapper\<close>

text \<open>
  C8, as the claim states it, fails: after \<^verbatim>\<open>khmer_labelhash_new\<close> native memory
  holds one object, the labeling engine, and both the pointer of the embedded presence
  wrapper and the wrapper's own pointer hold its address.
\<close>

theorem labelhash_pointer_is_aliased:
  "khmer_labelhash_new [] 32 [PyLong 1000] =
     (PyObj \<lparr>khashbits = \<lparr>ob_refcnt = 1, hashbits = Some 0\<rparr>, labelhash = Some 0\<rparr>,
      [Some (N_LabelHash (new_LabelHash 32 [1000]))])"
  by (simp add: khmer_labelhash_new_def new_def PyLong_AsUnsignedLongLong_def)

text \<open>
  C8, amended. The wrapper of the labeling engine owns one native object, the labeling
  engine, which is a subclass instance of the presence engine. The pointer field of
  the embedded presence wrapper is set to the same address, so the presence engine's
  operations, inherited by the Python type, reach the base-class part of that very
  object through the aliased pointer; no separate core object exists and nothing is
  forwarded. Deallocation deletes the one object once.
\<close>

theorem labelhash_new_aliases_hashbits_pointer:
  assumes "khmer_labelhash_new nh k sizes_list_o = (PyObj self, nh')"
  shows "hashbits (khashbits self) = labelhash self
       \<and> labelhash self = Some (length nh)
       \<and> (\<exists>lh. nh' = nh @ [Some (N_LabelHash lh)]
             \<and> deref_LabelHash nh' (labelhash self) = Some lh
             \<and> deref_Hashbits nh' (hashbits (khashbits self)) = Some (Hashbits.truncate lh)
             \<and> hashbits_n_tags n_tags nh' (khashbits self)
                 = PyObj (n_tags (Hashbits.truncate lh)))
       \<and> khmer_labelhash_dealloc nh' self = Some (nh @ [None])"
  using assms
  by (auto simp: khmer_labelhash_new_def new_def Let_def deref_LabelHash_def deref_Hashbits_def
       cell_def khmer_labelhash_dealloc_def delete_def hashbits_n_tags_def Hashbits.truncate_def
       split: option.splits)

text \<open>A labeling engine made in memory that already holds a presence engine.\<close>

theorem labelhash_new_example:
  "\<exists>self nh'.
     khmer_labelhash_new [Some (N_Hashbits (new_Hashbits 20 [7]))] 32 [PyLong 1000, PyFloat 3]
       = (PyObj self, nh')
     \<and> hashbits (khashbits self) = Some 1 \<and> labelhash self = Some 1
     \<and> khmer_labelhash_dealloc nh' self = Some [Some (N_Hashbits (new_Hashbits 20 [7])), None]"
proof -
  obtain self nh' where
    r: "khmer_labelhash_new [Some (N_Hashbits (new_Hashbits 20 [7]))] 32 [PyLong 1000, PyFloat 3]
          = (PyObj self, nh')"
    by (simp add: khmer_labelhash_new_def new_def)
  from labelhash_new_aliases_hashbits_pointer[OF r] r show ?thesis by simp
qed

section \<open>Properties of reference counting\<close>











lemma iter_refs_parsers [simp]: "iter_refs (h\<lparr>parsers := ps\<rparr>) a = iter_refs h a"
  by (simp add: iter_refs_def)





















end
